theory Spec2Isabelle
  imports Complex_Main "HOL-Library.AList" "HOL-Library.Sublist"
begin

section \<open>The intent negotiation workflow of the React component \<open>App\<close>\<close>

text \<open>
  The component \<open>App\<close> of \<^verbatim>\<open>frontend/src/App.jsx\<close> keeps the whole negotiation in React
  state and changes it in seven functions (\<open>resetWorkflow\<close>, \<open>handleClassification\<close>,
  \<open>handleDecomposition\<close>, \<open>handleValidation\<close>, \<open>handleClarification\<close>,
  \<open>handleAlternatives\<close>, \<open>generateIntent\<close>) and in three inline \<open>onChange\<close> callbacks.
  Each handler is modelled as a function from the state at the click to the state once
  the handler has settled; the remote services are a parameter (\<open>gateway\<close>), and every
  \<open>fetch\<close> a handler issues is recorded, in order, in the field \<open>sent\<close>.

  Conventions of the embedding:
  \<^item> a JavaScript object used as a dictionary whose keys are enumerated
    (\<open>selectedServices\<close>, \<open>services_valides\<close>) is an association list in insertion
    order; \<open>obj[k] = v\<close> and \<open>{...obj, [k]: v}\<close> are \<open>AList.update\<close> (replace in place,
    else append), \<open>Object.keys\<close> is \<open>map fst\<close>. Keys that look like array indices,
    which JavaScript enumerates first, are outside the model;
  \<^item> reading \<open>obj[k]\<close> follows the prototype chain: a name that is not an own property
    of a plain object is still found when \<open>Object.prototype\<close> has a property of that
    name (\<open>getProp\<close>), and assigning to \<open>__proto__\<close> replaces the prototype instead of
    storing a key;
  \<^item> the candidate catalog, which is only ever indexed, is the map of its own properties;
  \<^item> a value that may be \<open>null\<close> or \<open>undefined\<close> is an \<open>option\<close>;
  \<^item> strings are sequences of UTF-8 bytes;
  \<^item> the user-visible messages are written without their accents;
  \<^item> rendering is not modelled: the page is taken to show the card of the current step.

  The repository also holds an earlier copy of the component, which lacks the
  pre-selection after a clarification, the optional chaining in the validation loop, the
  history entry of a clarification and two fields of the clarification request. The
  model follows \<^verbatim>\<open>frontend/src/App.jsx\<close>.
\<close>

subsection \<open>Data exchanged with the services\<close>

record dependency_ref =
  dep_id :: string
  dep_name :: string
  dep_version :: string

record candidate =
  service_id :: string
  cand_name :: string
  description :: string
  score :: rat
  dependencies :: "dependency_ref list"

record identified_service =
  nom :: string
  raison :: string
  proprietes :: "(string \<times> string) list"

type_synonym catalog = "string \<rightharpoonup> candidate list"

text \<open>The body of a successful \<open>/api/decompose\<close> or \<open>/api/clarify\<close> response.\<close>

record decomposition_data =
  d_services_identifies :: "identified_service list"
  d_candidates :: catalog
  d_pre_validated_services :: "string list option"

record classification_data =
  c_type :: string
  c_message :: string

record intent =
  intent_name :: string
  characteristic :: "string list option"

record clarify_body =
  q_user_clarification :: string
  q_services_valides_noms :: "string list"
  q_services_refuses :: "string list"
  q_original_request :: string
  q_services_valides_data :: "(string \<times> candidate) list"
  q_services_identifies_precedents :: "identified_service list"

record alternatives_body =
  a_services_refuses :: "string list"
  a_services_valides :: "string list"
  a_historique :: "string list"

record generate_body =
  g_services_valides :: "(string \<times> candidate) list"
  g_services_identifies :: "identified_service list"
  g_user_request_original :: string

datatype request =
    ClassifyReq string
  | DecomposeReq string
  | ClarifyReq clarify_body
  | AlternativesReq alternatives_body
  | GenerateReq generate_body

text \<open>
  What a \<open>fetch\<close> followed by \<open>response.json()\<close> can give: a body with \<open>response.ok\<close>,
  a body without it (its \<open>detail\<close>, when present, becomes the message), or an exception
  of \<open>fetch\<close> or of the JSON parser with its message.
\<close>

datatype 'a reply = Ok 'a | NotOk "string option" | Thrown string

record gateway =
  api_classify :: "string \<Rightarrow> classification_data reply"
  api_decompose :: "string \<Rightarrow> decomposition_data reply"
  api_clarify :: "clarify_body \<Rightarrow> decomposition_data reply"
  api_alternatives :: "alternatives_body \<Rightarrow> string list reply"
  api_generate :: "generate_body \<Rightarrow> intent reply"

subsection \<open>The state of the component\<close>

text \<open>
  \<open>services_valides\<close> holds the own properties of the object of that name, and
  \<open>services_valides_proto\<close> its prototype: \<open>None\<close> for \<open>Object.prototype\<close>, as in every
  object literal, and \<open>Some c\<close> once the assignment \<open>validated['__proto__'] = c\<close> has made
  the candidate \<open>c\<close> the prototype.
\<close>

record conversation_state =
  user_request_original :: string
  services_valides :: "(string \<times> candidate) list"
  services_valides_proto :: "candidate option"
  services_identifies :: "identified_service list"
  historique :: "string list"

record app =
  activeStep :: nat
  userInput :: string
  loading :: bool
  loadingLabel :: string
  error :: "string option"
  classification :: "classification_data option"
  decomposition :: "decomposition_data option"
  selectedServices :: "(string \<times> string option) list"
  validatedServices :: "string list"
  clarificationResponse :: string
  alternatives :: "string list"
  finalIntent :: "intent option"
  conversationState :: conversation_state
  sent :: "request list"

definition emptyConversation :: conversation_state where
  "emptyConversation =
     \<lparr>user_request_original = '''', services_valides = [], services_valides_proto = None,
      services_identifies = [], historique = []\<rparr>"

text \<open>The initial values of the \<open>useState\<close> calls.\<close>

definition initialApp :: app where
  "initialApp =
     \<lparr>activeStep = 0, userInput = '''', loading = False, loadingLabel = '''', error = None,
      classification = None, decomposition = None, selectedServices = [],
      validatedServices = [], clarificationResponse = '''', alternatives = [],
      finalIntent = None, conversationState = emptyConversation, sent = []\<rparr>"

subsection \<open>Helpers for the JavaScript idioms\<close>

text \<open>
  \<open>!s.trim()\<close>: the string is empty once its white space is trimmed. \<open>trim\<close> removes
  the white space and line terminators of ECMAScript: the six of ASCII, U+00A0, U+1680,
  U+2000 to U+200A, U+2028, U+2029, U+202F, U+205F, U+3000 and U+FEFF, here in UTF-8.
\<close>

definition is_space :: "char \<Rightarrow> bool" where
  "is_space c = (c \<in> set [CHR '' '', CHR 0x09, CHR 0x0A, CHR 0x0B, CHR 0x0C, CHR 0x0D])"

definition wide_space :: "char \<Rightarrow> char \<Rightarrow> char \<Rightarrow> bool" where
  "wide_space c d e =
     ((c = CHR 0xE1 \<and> d = CHR 0x9A \<and> e = CHR 0x80) \<or>
      (c = CHR 0xE2 \<and> d = CHR 0x80 \<and>
         e \<in> set [CHR 0x80, CHR 0x81, CHR 0x82, CHR 0x83, CHR 0x84, CHR 0x85, CHR 0x86,
                  CHR 0x87, CHR 0x88, CHR 0x89, CHR 0x8A, CHR 0xA8, CHR 0xA9, CHR 0xAF]) \<or>
      (c = CHR 0xE2 \<and> d = CHR 0x81 \<and> e = CHR 0x9F) \<or>
      (c = CHR 0xE3 \<and> d = CHR 0x80 \<and> e = CHR 0x80) \<or>
      (c = CHR 0xEF \<and> d = CHR 0xBB \<and> e = CHR 0xBF))"

fun blank :: "string \<Rightarrow> bool" where
  "blank [] = True"
| "blank (c # cs) =
     (if is_space c then blank cs
      else case cs of
             [] \<Rightarrow> False
           | d # cs' \<Rightarrow>
               if c = CHR 0xC2 \<and> d = CHR 0xA0 then blank cs'
               else (case cs' of
                       [] \<Rightarrow> False
                     | e # cs'' \<Rightarrow> wide_space c d e \<and> blank cs''))"

text \<open>
  The property names of \<open>Object.prototype\<close>. Reading one of them on a plain object that
  has no own property of that name gives a function, or for \<open>__proto__\<close> the prototype
  object: a truthy value that is not an array and has no \<open>service_id\<close>.
\<close>

definition protoNames :: "string list" where
  "protoNames =
     [''constructor'', ''__defineGetter__'', ''__defineSetter__'', ''hasOwnProperty'',
      ''__lookupGetter__'', ''__lookupSetter__'', ''isPrototypeOf'', ''propertyIsEnumerable'',
      ''toString'', ''valueOf'', ''__proto__'', ''toLocaleString'']"

datatype 'v prop_read = Own 'v | Inherited | Absent

text \<open>\<open>obj[n]\<close> on an object whose prototype is \<open>Object.prototype\<close>.\<close>

definition getProp :: "(string \<rightharpoonup> 'v) \<Rightarrow> string \<Rightarrow> 'v prop_read" where
  "getProp own n =
     (case own n of
        Some v \<Rightarrow> Own v
      | None \<Rightarrow> if n \<in> set protoNames then Inherited else Absent)"

text \<open>
  \<open>selectedServices[n]\<close> is truthy. An own pick is a string, truthy unless empty, or
  \<open>undefined\<close>; an inherited value is truthy.
\<close>

definition picked :: "(string \<times> string option) list \<Rightarrow> string \<Rightarrow> bool" where
  "picked sel n =
     (case getProp (map_of sel) n of
        Own None \<Rightarrow> False
      | Own (Some sid) \<Rightarrow> sid \<noteq> []
      | Inherited \<Rightarrow> True
      | Absent \<Rightarrow> False)"

text \<open>What a \<open>try\<close> block can end with.\<close>

datatype 'a outcome = Returns 'a | Throws string

text \<open>The message of the error that reaches the \<open>catch\<close> block.\<close>

fun err_message :: "string \<Rightarrow> 'a reply \<Rightarrow> string" where
  "err_message dflt (NotOk None) = dflt"
| "err_message dflt (NotOk (Some d)) = (if d = [] then dflt else d)"
| "err_message dflt (Thrown m) = m"
| "err_message dflt (Ok x) = dflt"

definition typeError_null :: string where
  "typeError_null = ''Cannot read properties of null''"

definition typeError_notFunction :: string where
  "typeError_notFunction = ''candidates?.find is not a function''"

text \<open>The \<open>finally\<close> blocks.\<close>

definition stopLoading :: "app \<Rightarrow> app" where
  "stopLoading st = st\<lparr>loading := False, loadingLabel := ''''\<rparr>"

subsection \<open>The handlers\<close>

definition resetWorkflow :: "app \<Rightarrow> app" where
  "resetWorkflow st =
     st\<lparr>activeStep := 0, userInput := '''', error := None, classification := None,
        decomposition := None, selectedServices := [], validatedServices := [],
        clarificationResponse := '''', alternatives := [], finalIntent := None,
        loadingLabel := '''', conversationState := emptyConversation\<rparr>"

definition handleDecomposition :: "gateway \<Rightarrow> app \<Rightarrow> app" where
  "handleDecomposition gw st =
     (let st1 = st\<lparr>loadingLabel := ''Decomposition en cours...'',
                    sent := sent st @ [DecomposeReq (userInput st)]\<rparr>
      in case api_decompose gw (userInput st) of
           Ok data \<Rightarrow>
             st1\<lparr>decomposition := Some data,
                 conversationState := (conversationState st1)
                   \<lparr>user_request_original := userInput st,
                    services_identifies := d_services_identifies data,
                    historique := historique (conversationState st1)
                                  @ [''Demande: '' @ userInput st]\<rparr>,
                 activeStep := 2\<rparr>
         | r \<Rightarrow> st1\<lparr>error := Some (err_message ''Erreur de decomposition'' r)\<rparr>)"

definition handleClassification :: "gateway \<Rightarrow> app \<Rightarrow> app" where
  "handleClassification gw st =
     (if blank (userInput st) then st\<lparr>error := Some ''Veuillez entrer une demande''\<rparr>
      else
        let st1 = st\<lparr>loading := True, loadingLabel := ''Classification en cours...'',
                      error := None, sent := sent st @ [ClassifyReq (userInput st)]\<rparr>
        in stopLoading
             (case api_classify gw (userInput st) of
                Ok data \<Rightarrow>
                  (let st2 = st1\<lparr>classification := Some data\<rparr>
                   in if c_type data = ''TELECOM'' then handleDecomposition gw st2
                      else st2\<lparr>activeStep := 1\<rparr>)
              | r \<Rightarrow> st1\<lparr>error := Some (err_message ''Erreur de classification'' r)\<rparr>))"

text \<open>
  \<open>generateIntent(servicesValides = null, servicesIdentifies = null)\<close>. An object and an
  array are truthy even when empty, so \<open>a || b\<close> takes \<open>b\<close> only for \<open>null\<close>.
\<close>

definition generateIntent ::
  "gateway \<Rightarrow> (string \<times> candidate) list option \<Rightarrow> identified_service list option \<Rightarrow> app \<Rightarrow> app"
where
  "generateIntent gw servicesValides servicesIdentifies st =
     (let validated = (case servicesValides of
                         Some v \<Rightarrow> v | None \<Rightarrow> services_valides (conversationState st));
          identified = (case servicesIdentifies of
                          Some i \<Rightarrow> i | None \<Rightarrow> services_identifies (conversationState st));
          body = \<lparr>g_services_valides = validated, g_services_identifies = identified,
                  g_user_request_original = user_request_original (conversationState st)\<rparr>;
          st1 = st\<lparr>loading := True, loadingLabel := ''Generation de l'Intent TMF921...'',
                    error := None, sent := sent st @ [GenerateReq body]\<rparr>
      in stopLoading
           (case api_generate gw body of
              Ok data \<Rightarrow> st1\<lparr>finalIntent := Some data, activeStep := 4\<rparr>
            | r \<Rightarrow> st1\<lparr>error := Some (err_message ''Erreur de generation'' r)\<rparr>))"

text \<open>
  The loop of \<open>handleValidation\<close> that builds \<open>validated\<close> from the entries of
  \<open>selectedServices\<close>. \<open>candidates?.find(c => c.service_id === serviceId)\<close> is
  \<open>undefined\<close> when the catalog has no property of the name; it throws when the property
  is inherited, since the value found is not \<open>undefined\<close> and has no method \<open>find\<close>; a
  pick that is \<open>undefined\<close> equals no id.
\<close>

definition findCandidate :: "catalog \<Rightarrow> string \<Rightarrow> string option \<Rightarrow> candidate option outcome" where
  "findCandidate cat serviceName serviceId =
     (case getProp cat serviceName of
        Own candidates \<Rightarrow>
          Returns (case serviceId of
                     None \<Rightarrow> None
                   | Some sid \<Rightarrow> find (\<lambda>c. service_id c = sid) candidates)
      | Inherited \<Rightarrow> Throws typeError_notFunction
      | Absent \<Rightarrow> Returns None)"

text \<open>
  The object \<open>validated\<close> while it is built: its own properties and its prototype. The
  assignment \<open>validated[serviceName] = candidate\<close> stores an own property, except for
  the name \<open>__proto__\<close>, where it makes the candidate the prototype.
\<close>

type_synonym validated_obj = "(string \<times> candidate) list \<times> candidate option"

definition validatedStep ::
  "catalog \<Rightarrow> string \<times> string option \<Rightarrow> validated_obj \<Rightarrow> validated_obj outcome"
where
  "validatedStep cat entry validated =
     (case findCandidate cat (fst entry) (snd entry) of
        Throws m \<Rightarrow> Throws m
      | Returns None \<Rightarrow> Returns validated
      | Returns (Some c) \<Rightarrow>
          if fst entry = ''__proto__'' then Returns (fst validated, Some c)
          else Returns (AList.update (fst entry) c (fst validated), snd validated))"

fun buildLoop ::
  "catalog \<Rightarrow> (string \<times> string option) list \<Rightarrow> validated_obj \<Rightarrow> validated_obj outcome"
where
  "buildLoop cat [] validated = Returns validated"
| "buildLoop cat (entry # entries) validated =
     (case validatedStep cat entry validated of
        Throws m \<Rightarrow> Throws m
      | Returns validated' \<Rightarrow> buildLoop cat entries validated')"

definition buildValidated ::
  "(string \<times> string option) list \<Rightarrow> catalog \<Rightarrow> validated_obj outcome" where
  "buildValidated sel cat = buildLoop cat sel ([], None)"

definition allServicesValidated ::
  "decomposition_data \<Rightarrow> (string \<times> string option) list \<Rightarrow> bool" where
  "allServicesValidated d sel =
     list_all (\<lambda>service. picked sel (nom service)) (d_services_identifies d)"

definition handleValidation :: "gateway \<Rightarrow> app \<Rightarrow> app" where
  "handleValidation gw st =
     (if selectedServices st = []
      then st\<lparr>error := Some ''Veuillez selectionner au moins un service''\<rparr>
      else
        let st1 = st\<lparr>loading := True, loadingLabel := ''Validation en cours...'',
                      error := None\<rparr>
        in stopLoading
             (case decomposition st of
                None \<Rightarrow> st1\<lparr>error := Some typeError_null\<rparr>
              | Some d \<Rightarrow>
                  (case buildValidated (selectedServices st) (d_candidates d) of
                     Throws m \<Rightarrow> st1\<lparr>error := Some m\<rparr>
                   | Returns validated \<Rightarrow>
                       (let st2 = st1\<lparr>conversationState := (conversationState st1)
                                        \<lparr>services_valides := fst validated,
                                         services_valides_proto := snd validated,
                                         services_identifies := d_services_identifies d\<rparr>,
                                      validatedServices := map fst (fst validated)\<rparr>
                        in if allServicesValidated d (selectedServices st)
                           then generateIntent gw (Some (fst validated))
                                  (Some (d_services_identifies d)) st2
                           else st2\<lparr>activeStep := 3\<rparr>))))"

text \<open>\<open>decomposition.services_identifies.filter(s => !selectedServices[s.nom]).map(s => s.nom)\<close>\<close>

definition refusedServices ::
  "decomposition_data \<Rightarrow> (string \<times> string option) list \<Rightarrow> string list" where
  "refusedServices d sel =
     map nom (filter (\<lambda>s. \<not> picked sel (nom s)) (d_services_identifies d))"

text \<open>
  \<open>existingCandidate = conversationState.services_valides[svcNom]\<close> and the value of
  \<open>existingCandidate.service_id\<close> when \<open>existingCandidate\<close> is truthy. An own property is
  a candidate. Otherwise the name is looked up in the prototype: in a candidate that was
  made the prototype, whose fields are strings, a number and an array, none of which has
  a \<open>service_id\<close>; then in \<open>Object.prototype\<close>, where \<open>__proto__\<close> gives the prototype
  itself.
\<close>

datatype existing = NoExisting | Existing "string option"

definition candidateField :: "candidate \<Rightarrow> string \<Rightarrow> bool option" where
  "candidateField c n =
     (if n = ''service_id'' then Some (service_id c \<noteq> [])
      else if n = ''name'' then Some (cand_name c \<noteq> [])
      else if n = ''description'' then Some (description c \<noteq> [])
      else if n = ''score'' then Some (score c \<noteq> 0)
      else if n = ''dependencies'' then Some True
      else None)"

definition existingCandidate ::
  "(string \<times> candidate) list \<Rightarrow> candidate option \<Rightarrow> string \<Rightarrow> existing" where
  "existingCandidate valides vproto svcNom =
     (case map_of valides svcNom of
        Some c \<Rightarrow> Existing (Some (service_id c))
      | None \<Rightarrow>
          (case vproto of
             None \<Rightarrow> if svcNom \<in> set protoNames then Existing None else NoExisting
           | Some p \<Rightarrow>
               (case candidateField p svcNom of
                  Some truthy \<Rightarrow> if truthy then Existing None else NoExisting
                | None \<Rightarrow>
                    if svcNom = ''__proto__'' then Existing (Some (service_id p))
                    else if svcNom \<in> set protoNames then Existing None
                    else NoExisting)))"

text \<open>
  \<open>preSelected[svcNom] = v\<close> for a string or \<open>undefined\<close>: an own property, except for
  the name \<open>__proto__\<close>, whose setter ignores a value that is not an object.
\<close>

definition assignPick ::
  "string \<Rightarrow> string option \<Rightarrow> (string \<times> string option) list \<Rightarrow> (string \<times> string option) list"
where
  "assignPick n v preSelected =
     (if n = ''__proto__'' then preSelected else AList.update n v preSelected)"

text \<open>
  The body of the \<open>forEach\<close> over \<open>data.pre_validated_services\<close> in
  \<open>handleClarification\<close>, and the object \<open>preSelected\<close> it fills. In the fallback,
  \<open>data.candidates[svcNom]?.[0]\<close> is a candidate only for an own, non-empty list.
\<close>

definition preSelectStep ::
  "(string \<times> candidate) list \<Rightarrow> candidate option \<Rightarrow> catalog \<Rightarrow> string
     \<Rightarrow> (string \<times> string option) list \<Rightarrow> (string \<times> string option) list"
where
  "preSelectStep valides vproto cat svcNom preSelected =
     (case existingCandidate valides vproto svcNom of
        Existing sid \<Rightarrow> assignPick svcNom sid preSelected
      | NoExisting \<Rightarrow>
          (case getProp cat svcNom of
             Own (c # cs) \<Rightarrow> assignPick svcNom (Some (service_id c)) preSelected
           | _ \<Rightarrow> preSelected))"

definition preSelect ::
  "(string \<times> candidate) list \<Rightarrow> candidate option \<Rightarrow> decomposition_data
     \<Rightarrow> (string \<times> string option) list"
where
  "preSelect valides vproto data =
     (case d_pre_validated_services data of
        None \<Rightarrow> []
      | Some pre \<Rightarrow>
          if pre = [] then []
          else fold (preSelectStep valides vproto (d_candidates data)) pre [])"

definition clarifyBody :: "app \<Rightarrow> decomposition_data \<Rightarrow> clarify_body" where
  "clarifyBody st d =
     \<lparr>q_user_clarification = clarificationResponse st,
      q_services_valides_noms = validatedServices st,
      q_services_refuses = refusedServices d (selectedServices st),
      q_original_request = userInput st,
      q_services_valides_data = services_valides (conversationState st),
      q_services_identifies_precedents = d_services_identifies d\<rparr>"

definition handleClarification :: "gateway \<Rightarrow> app \<Rightarrow> app" where
  "handleClarification gw st =
     (if blank (clarificationResponse st)
      then st\<lparr>error := Some ''Veuillez repondre a la question''\<rparr>
      else
        let st1 = st\<lparr>loading := True, loadingLabel := ''Analyse en cours...'', error := None\<rparr>
        in stopLoading
             (case decomposition st of
                None \<Rightarrow> st1\<lparr>error := Some typeError_null\<rparr>
              | Some d \<Rightarrow>
                  (let body = clarifyBody st d;
                       st2 = st1\<lparr>sent := sent st1 @ [ClarifyReq body]\<rparr>
                   in case api_clarify gw body of
                        Ok data \<Rightarrow>
                          st2\<lparr>decomposition := Some data,
                              selectedServices :=
                                preSelect (services_valides (conversationState st))
                                  (services_valides_proto (conversationState st)) data,
                              conversationState := (conversationState st2)
                                \<lparr>services_identifies := d_services_identifies data,
                                 historique := historique (conversationState st2)
                                   @ [''Clarification: '' @ clarificationResponse st]\<rparr>,
                              clarificationResponse := '''',
                              activeStep := 2\<rparr>
                      | r \<Rightarrow> st2\<lparr>error := Some (err_message ''Erreur de clarification'' r)\<rparr>)))"

definition alternativesBody :: "app \<Rightarrow> decomposition_data \<Rightarrow> alternatives_body" where
  "alternativesBody st d =
     \<lparr>a_services_refuses = refusedServices d (selectedServices st),
      a_services_valides = validatedServices st,
      a_historique = historique (conversationState st)\<rparr>"

definition handleAlternatives :: "gateway \<Rightarrow> app \<Rightarrow> app" where
  "handleAlternatives gw st =
     (let st1 = st\<lparr>loading := True, loadingLabel := ''Recherche d'alternatives...'',
                    error := None\<rparr>
      in stopLoading
           (case decomposition st of
              None \<Rightarrow> st1\<lparr>error := Some typeError_null\<rparr>
            | Some d \<Rightarrow>
                (let body = alternativesBody st d;
                     st2 = st1\<lparr>sent := sent st1 @ [AlternativesReq body]\<rparr>
                 in case api_alternatives gw body of
                      Ok data \<Rightarrow> st2\<lparr>alternatives := data\<rparr>
                    | r \<Rightarrow> st2\<lparr>error := Some (err_message ''Erreur de recommandation'' r)\<rparr>)))"

subsection \<open>What the rendered page lets the user do\<close>

text \<open>
  The page shows one card per value of \<open>activeStep\<close>, and each button carries a
  \<open>disabled\<close> condition. An event on a control that is not rendered, or that is disabled,
  changes nothing. A handler runs from the click until it has settled before the next
  event is taken: the page disables its buttons while \<open>loading\<close>, but not the request
  field, the radio buttons and the reset buttons, and what the user does with those while
  a call is in flight is outside the model.
\<close>

datatype event =
    TypeUserInput string
  | ClickClassify
  | ChooseCandidate string string
  | ClickValidate
  | TypeClarification string
  | ClickClarify
  | ClickAlternatives
  | ClickFinish
  | ClickReset
  | CloseError

text \<open>
  The radio buttons of a service: one per candidate of
  \<open>decomposition.candidates[service.nom] || []\<close>, when that is an own list. The new object
  \<open>{...selectedServices, [service.nom]: id}\<close> has the pick as an own property whatever
  the name.
\<close>

definition offered :: "decomposition_data \<Rightarrow> string \<Rightarrow> string \<Rightarrow> bool" where
  "offered d n sid =
     (n \<in> set (map nom (d_services_identifies d)) \<and>
      (case getProp (d_candidates d) n of
         Own candidates \<Rightarrow> sid \<in> set (map service_id candidates)
       | _ \<Rightarrow> False))"

definition resetShown :: "app \<Rightarrow> bool" where
  "resetShown st =
     ((activeStep st = 1 \<and>
         (case classification st of None \<Rightarrow> False | Some c \<Rightarrow> c_type c \<noteq> ''TELECOM'')) \<or>
      (activeStep st = 2 \<and> decomposition st \<noteq> None) \<or>
      (activeStep st = 4 \<and> finalIntent st \<noteq> None))"

fun fire :: "gateway \<Rightarrow> event \<Rightarrow> app \<Rightarrow> app" where
  "fire gw (TypeUserInput s) st =
     (if activeStep st = 0 then st\<lparr>userInput := s\<rparr> else st)"
| "fire gw ClickClassify st =
     (if activeStep st = 0 \<and> \<not> (loading st \<or> blank (userInput st))
      then handleClassification gw st else st)"
| "fire gw (ChooseCandidate n sid) st =
     (case decomposition st of
        None \<Rightarrow> st
      | Some d \<Rightarrow>
          if activeStep st = 2 \<and> offered d n sid
          then st\<lparr>selectedServices := AList.update n (Some sid) (selectedServices st)\<rparr>
          else st)"
| "fire gw ClickValidate st =
     (if activeStep st = 2 \<and> decomposition st \<noteq> None \<and>
         \<not> (loading st \<or> selectedServices st = [])
      then handleValidation gw st else st)"
| "fire gw (TypeClarification s) st =
     (if activeStep st = 3 \<and> \<not> loading st then st\<lparr>clarificationResponse := s\<rparr> else st)"
| "fire gw ClickClarify st =
     (if activeStep st = 3 \<and> \<not> (loading st \<or> blank (clarificationResponse st))
      then handleClarification gw st else st)"
| "fire gw ClickAlternatives st =
     (if activeStep st = 3 \<and> \<not> loading st then handleAlternatives gw st else st)"
| "fire gw ClickFinish st =
     (if activeStep st = 3 \<and> \<not> (loading st \<or> validatedServices st = [])
      then generateIntent gw None None st else st)"
| "fire gw ClickReset st = (if resetShown st then resetWorkflow st else st)"
| "fire gw CloseError st =
     (case error st of
        None \<Rightarrow> st
      | Some m \<Rightarrow> if m = [] then st else st\<lparr>error := None\<rparr>)"

text \<open>
  A session: the events in order, each with the behaviour of the remote services while
  it is handled.
\<close>

definition run :: "(gateway \<times> event) list \<Rightarrow> app \<Rightarrow> app" where
  "run evs st = fold (\<lambda>(gw, ev). fire gw ev) evs st"

subsection \<open>A sample negotiation\<close>

text \<open>
  Two services, \<open>Camera\<close> and \<open>Alert\<close>; several answers of the decomposition and
  clarification services; and the sessions used below to run the handlers on concrete
  inputs.
\<close>

definition cam1 :: candidate where
  "cam1 = \<lparr>service_id = ''cam-1'', cand_name = ''Camera 5G'', description = ''Flux video 5G'',
           score = 4 / 5,
           dependencies = [\<lparr>dep_id = ''upf-1'', dep_name = ''UPF'', dep_version = ''1.0''\<rparr>]\<rparr>"

definition cam2 :: candidate where
  "cam2 = \<lparr>service_id = ''cam-2'', cand_name = ''Camera WiFi'', description = ''Flux video WiFi'',
           score = 1 / 2, dependencies = []\<rparr>"

definition al1 :: candidate where
  "al1 = \<lparr>service_id = ''al-1'', cand_name = ''Alerte mail'', description = ''Alerte par mail'',
          score = 3 / 10, dependencies = []\<rparr>"

definition al2 :: candidate where
  "al2 = \<lparr>service_id = ''al-2'', cand_name = ''Alerte SMS'', description = ''Alerte par SMS'',
          score = 9 / 10, dependencies = []\<rparr>"

definition svcCamera :: identified_service where
  "svcCamera = \<lparr>nom = ''Camera'', raison = ''analyse video'',
                proprietes = [(''debit'', ''100'')]\<rparr>"

definition svcAlert :: identified_service where
  "svcAlert = \<lparr>nom = ''Alert'', raison = ''detection intrusion'', proprietes = []\<rparr>"

definition round1 :: decomposition_data where
  "round1 = \<lparr>d_services_identifies = [svcCamera, svcAlert],
             d_candidates = [''Camera'' \<mapsto> [cam1, cam2], ''Alert'' \<mapsto> [al1]],
             d_pre_validated_services = None\<rparr>"

definition round2 :: decomposition_data where
  "round2 = \<lparr>d_services_identifies = [svcCamera, svcAlert],
             d_candidates = [''Camera'' \<mapsto> [cam1, cam2], ''Alert'' \<mapsto> [al2]],
             d_pre_validated_services = None\<rparr>"

text \<open>A round that names \<open>Camera\<close> as already validated but no longer offers \<open>cam-1\<close>.\<close>

definition round3 :: decomposition_data where
  "round3 = \<lparr>d_services_identifies = [svcCamera],
             d_candidates = [''Camera'' \<mapsto> [cam2]],
             d_pre_validated_services = Some [''Camera'']\<rparr>"

definition intent0 :: intent where
  "intent0 = \<lparr>intent_name = ''intent-camera'', characteristic = Some [''debit'']\<rparr>"

definition gwA :: gateway where
  "gwA = \<lparr>api_classify = (\<lambda>_. Ok \<lparr>c_type = ''TELECOM'', c_message = ''Demande telecom''\<rparr>),
          api_decompose = (\<lambda>_. Ok round1),
          api_clarify = (\<lambda>_. Ok round2),
          api_alternatives = (\<lambda>_. Ok [''Sirene'']),
          api_generate = (\<lambda>_. Ok intent0)\<rparr>"

definition gwB :: gateway where
  "gwB = gwA\<lparr>api_clarify := (\<lambda>_. Ok round3)\<rparr>"

text \<open>The generation service is down.\<close>

definition gwDown :: gateway where
  "gwDown = gwA\<lparr>api_generate := (\<lambda>_. NotOk (Some ''Service indisponible''))\<rparr>"

definition sessionRound1 :: "(gateway \<times> event) list" where
  "sessionRound1 =
     [(gwA, TypeUserInput ''camera 5G avec alerte''), (gwA, ClickClassify),
      (gwA, ChooseCandidate ''Camera'' ''cam-1''), (gwA, ClickValidate)]"

definition sessionClarified :: "(gateway \<times> event) list" where
  "sessionClarified =
     sessionRound1 @ [(gwA, TypeClarification ''alerte par SMS''), (gwA, ClickClarify)]"

definition sessionRound2 :: "(gateway \<times> event) list" where
  "sessionRound2 =
     sessionClarified @ [(gwA, ChooseCandidate ''Alert'' ''al-2''), (gwA, ClickValidate)]"

definition sessionStale :: "(gateway \<times> event) list" where
  "sessionStale =
     sessionRound1 @ [(gwB, TypeClarification ''alerte par SMS''), (gwB, ClickClarify)]"

definition sessionPicked :: "(gateway \<times> event) list" where
  "sessionPicked =
     [(gwA, TypeUserInput ''camera 5G avec alerte''), (gwA, ClickClassify),
      (gwA, ChooseCandidate ''Camera'' ''cam-1''), (gwA, ChooseCandidate ''Alert'' ''al-1'')]"

text \<open>A round that names \<open>Camera\<close> as already validated and has no catalog entry for it.\<close>

definition round4 :: decomposition_data where
  "round4 = \<lparr>d_services_identifies = [svcCamera, svcAlert],
             d_candidates = [''Alert'' \<mapsto> [al2]],
             d_pre_validated_services = Some [''Camera'']\<rparr>"

definition gwC :: gateway where
  "gwC = gwA\<lparr>api_clarify := (\<lambda>_. Ok round4)\<rparr>"

text \<open>A round that names \<open>Camera\<close> as already validated and still offers \<open>cam-1\<close>.\<close>

definition round5 :: decomposition_data where
  "round5 = \<lparr>d_services_identifies = [svcCamera, svcAlert],
             d_candidates = [''Camera'' \<mapsto> [cam2, cam1], ''Alert'' \<mapsto> [al2]],
             d_pre_validated_services = Some [''Camera'']\<rparr>"

definition gwD :: gateway where
  "gwD = gwA\<lparr>api_clarify := (\<lambda>_. Ok round5)\<rparr>"

definition sessionKept :: "(gateway \<times> event) list" where
  "sessionKept =
     sessionRound1 @ [(gwD, TypeClarification ''alerte par SMS''), (gwD, ClickClarify),
                      (gwD, ChooseCandidate ''Alert'' ''al-2'')]"

definition sessionEmptied :: "(gateway \<times> event) list" where
  "sessionEmptied =
     sessionRound1 @ [(gwC, TypeClarification ''alerte par SMS''), (gwC, ClickClarify),
                      (gwC, ClickValidate)]"

definition sessionTyped :: "(gateway \<times> event) list" where
  "sessionTyped = sessionRound1 @ [(gwA, TypeClarification ''alerte par SMS'')]"

text \<open>
  A round that names as already validated \<open>Camera\<close> and a service called
  \<open>constructor\<close>, which no catalog lists.
\<close>

definition round6 :: decomposition_data where
  "round6 = \<lparr>d_services_identifies = [svcCamera, svcAlert],
             d_candidates = [''Camera'' \<mapsto> [cam1, cam2], ''Alert'' \<mapsto> [al2]],
             d_pre_validated_services = Some [''Camera'', ''constructor'']\<rparr>"

definition gwE :: gateway where
  "gwE = gwA\<lparr>api_clarify := (\<lambda>_. Ok round6)\<rparr>"

definition sessionInherited :: "(gateway \<times> event) list" where
  "sessionInherited =
     sessionRound1 @ [(gwE, TypeClarification ''alerte par SMS''), (gwE, ClickClarify)]"

section \<open>Properties\<close>

lemmas handler_defs =
  run_def handleClassification_def handleDecomposition_def handleValidation_def
  handleClarification_def handleAlternatives_def generateIntent_def stopLoading_def
  is_space_def wide_space_def getProp_def protoNames_def picked_def allServicesValidated_def
  buildValidated_def validatedStep_def findCandidate_def refusedServices_def preSelect_def
  preSelectStep_def existingCandidate_def candidateField_def assignPick_def clarifyBody_def
  alternativesBody_def offered_def resetShown_def resetWorkflow_def initialApp_def
  emptyConversation_def Let_def

lemmas sample_defs =
  cam1_def cam2_def al1_def al2_def svcCamera_def svcAlert_def round1_def round2_def
  round3_def round4_def round5_def round6_def intent0_def gwA_def gwB_def gwC_def gwD_def
  gwE_def gwDown_def sessionRound1_def sessionClarified_def sessionRound2_def sessionStale_def
  sessionPicked_def sessionKept_def sessionEmptied_def sessionTyped_def
  sessionInherited_def

subsection \<open>Building the validated selection\<close>

lemma getProp_ordinary:
  "n \<notin> set protoNames \<Longrightarrow>
   getProp own n = (case own n of None \<Rightarrow> Absent | Some v \<Rightarrow> Own v)"
  by (simp add: getProp_def split: option.splits)

lemma findCandidate_ordinary:
  "n \<notin> set protoNames \<Longrightarrow>
   findCandidate cat n pick =
     Returns (case pick of
                None \<Rightarrow> None
              | Some sid \<Rightarrow>
                  (case cat n of
                     None \<Rightarrow> None
                   | Some candidates \<Rightarrow> find (\<lambda>c. service_id c = sid) candidates))"
  by (simp add: findCandidate_def getProp_ordinary split: option.splits)

lemma proto_is_protoName: "''__proto__'' \<in> set protoNames"
  by (simp add: protoNames_def)

lemma validatedStep_ordinary:
  "fst e \<notin> set protoNames \<Longrightarrow>
   validatedStep cat e acc =
     Returns (case snd e of
                None \<Rightarrow> acc
              | Some sid \<Rightarrow>
                  (case cat (fst e) of
                     None \<Rightarrow> acc
                   | Some candidates \<Rightarrow>
                       (case find (\<lambda>c. service_id c = sid) candidates of
                          None \<Rightarrow> acc
                        | Some c \<Rightarrow> (AList.update (fst e) c (fst acc), snd acc))))"
  using proto_is_protoName
  by (auto simp: validatedStep_def findCandidate_ordinary split: option.splits)

lemma buildLoop_returns:
  "set (map fst sel) \<inter> set protoNames = {} \<Longrightarrow> \<exists>r. buildLoop cat sel acc = Returns r"
proof (induction sel arbitrary: acc)
  case Nil
  then show ?case by simp
next
  case (Cons e sel)
  from Cons.prems have e: "fst e \<notin> set protoNames"
    and r: "set (map fst sel) \<inter> set protoNames = {}" by auto
  obtain acc' where s: "validatedStep cat e acc = Returns acc'"
    using validatedStep_ordinary[OF e] by blast
  from Cons.IH[OF r, of acc'] s show ?case by simp
qed

lemma buildLoop_proto:
  "buildLoop cat sel acc = Returns r \<Longrightarrow> ''__proto__'' \<notin> set (map fst sel) \<Longrightarrow>
   snd r = snd acc"
proof (induction sel arbitrary: acc)
  case Nil
  then show ?case by simp
next
  case (Cons e sel)
  from Cons.prems(1) obtain acc' where s: "validatedStep cat e acc = Returns acc'"
    and l: "buildLoop cat sel acc' = Returns r"
    by (auto split: outcome.splits)
  from Cons.prems(2) have "fst e \<noteq> ''__proto__''" and n: "''__proto__'' \<notin> set (map fst sel)"
    by auto
  with s have "snd acc' = snd acc"
    by (auto simp: validatedStep_def split: outcome.splits option.splits)
  with Cons.IH[OF l n] show ?case by simp
qed

lemma buildLoop_distinct:
  "buildLoop cat sel acc = Returns r \<Longrightarrow> distinct (map fst (fst acc)) \<Longrightarrow>
   distinct (map fst (fst r))"
proof (induction sel arbitrary: acc)
  case Nil
  then show ?case by simp
next
  case (Cons e sel)
  from Cons.prems(1) obtain acc' where s: "validatedStep cat e acc = Returns acc'"
    and l: "buildLoop cat sel acc' = Returns r"
    by (auto split: outcome.splits)
  from s Cons.prems(2) have "distinct (map fst (fst acc'))"
    by (auto simp: validatedStep_def AList.distinct_update
             split: outcome.splits option.splits if_splits)
  with Cons.IH[OF l] show ?case by simp
qed

lemma buildLoop_map_of:
  "buildLoop cat sel acc = Returns r \<Longrightarrow> distinct (map fst sel) \<Longrightarrow>
   set (map fst sel) \<inter> set protoNames = {} \<Longrightarrow>
   map_of (fst r) n =
     (case map_of sel n of
        Some (Some sid) \<Rightarrow>
          (case cat n of
             None \<Rightarrow> map_of (fst acc) n
           | Some candidates \<Rightarrow>
               (case find (\<lambda>c. service_id c = sid) candidates of
                  None \<Rightarrow> map_of (fst acc) n
                | Some c \<Rightarrow> Some c))
      | _ \<Rightarrow> map_of (fst acc) n)"
proof (induction sel arbitrary: acc)
  case Nil
  then show ?case by simp
next
  case (Cons e sel)
  obtain k pick where e: "e = (k, pick)" by (cases e)
  from Cons.prems(1) obtain acc' where s: "validatedStep cat e acc = Returns acc'"
    and l: "buildLoop cat sel acc' = Returns r"
    by (auto split: outcome.splits)
  from Cons.prems(2) have d: "distinct (map fst sel)" and k: "k \<notin> fst ` set sel"
    by (auto simp: e)
  from Cons.prems(3) have o: "k \<notin> set protoNames"
    and r: "set (map fst sel) \<inter> set protoNames = {}" by (auto simp: e)
  from k have none: "map_of sel k = None" by (simp add: map_of_eq_None_iff)
  have step: "map_of (fst acc') =
      (case pick of
         None \<Rightarrow> map_of (fst acc)
       | Some sid \<Rightarrow>
           (case cat k of
              None \<Rightarrow> map_of (fst acc)
            | Some candidates \<Rightarrow>
                (case find (\<lambda>c. service_id c = sid) candidates of
                   None \<Rightarrow> map_of (fst acc)
                 | Some c \<Rightarrow> (map_of (fst acc))(k \<mapsto> c))))"
    using s validatedStep_ordinary[of e cat acc] o
    by (auto simp: e AList.update_conv' split: option.splits)
  show ?case
  proof (cases "n = k")
    case True
    then show ?thesis
      using Cons.IH[OF l d r] none step by (simp add: e split: option.splits)
  next
    case False
    then show ?thesis
      using Cons.IH[OF l d r] step by (simp add: e split: option.splits)
  qed
qed

text \<open>
  For picks with one entry per service name, none of them a property name of
  \<open>Object.prototype\<close>, the loop ends normally, leaves the prototype of \<open>validated\<close>
  alone, and gives a name exactly the candidate that \<open>find\<close> returns for the picked id in
  the catalog list of that name.
\<close>

lemma buildValidated_ordinary:
  assumes d: "distinct (map fst picks)"
    and o: "set (map fst picks) \<inter> set protoNames = {}"
  shows "\<exists>v. buildValidated picks cat = Returns (v, None) \<and>
           distinct (map fst v) \<and>
           (\<forall>n. map_of v n =
              (case map_of picks n of
                 Some (Some sid) \<Rightarrow>
                   (case cat n of
                      None \<Rightarrow> None
                    | Some candidates \<Rightarrow> find (\<lambda>c. service_id c = sid) candidates)
               | _ \<Rightarrow> None))"
proof -
  from buildLoop_returns[OF o, of cat "([], None)"]
  obtain r where r: "buildLoop cat picks ([], None) = Returns r" by blast
  from o proto_is_protoName have "''__proto__'' \<notin> set (map fst picks)" by blast
  from buildLoop_proto[OF r this] have p: "snd r = None" by simp
  from buildLoop_distinct[OF r] have dv: "distinct (map fst (fst r))" by simp
  have m: "map_of (fst r) n =
              (case map_of picks n of
                 Some (Some sid) \<Rightarrow>
                   (case cat n of
                      None \<Rightarrow> None
                    | Some candidates \<Rightarrow> find (\<lambda>c. service_id c = sid) candidates)
               | _ \<Rightarrow> None)" for n
    using buildLoop_map_of[OF r d o, of n] by (simp split: option.splits)
  have "buildValidated picks cat = Returns (fst r, None)"
    using r p by (cases r) (simp add: buildValidated_def)
  with dv m show ?thesis by blast
qed

text \<open>
  Claim C8 holds on the code for the names above and fails for the property names of
  \<open>Object.prototype\<close>. A pick named \<open>constructor\<close> or \<open>toString\<close> whose name the catalog
  does not list is not dropped silently: the lookup finds the inherited function and the
  loop throws. A pick named \<open>__proto__\<close> whose id the catalog lists gives no entry: the
  assignment replaces the prototype of \<open>validated\<close>. The first picks are those that the
  pre-selection builds when the clarification answer names \<open>constructor\<close> as already
  validated.
\<close>

theorem buildValidated_prototype_names:
  "selectedServices (run sessionInherited initialApp) =
     [(''Camera'', Some ''cam-1''), (''constructor'', None)] \<and>
   d_candidates round6 ''constructor'' = None \<and>
   buildValidated [(''Camera'', Some ''cam-1''), (''constructor'', None)] (d_candidates round6)
     = Throws typeError_notFunction \<and>
   buildValidated [(''toString'', Some ''cam-1'')] (d_candidates round6)
     = Throws typeError_notFunction \<and>
   buildValidated [(''__proto__'', Some ''cam-1'')] [''__proto__'' \<mapsto> [cam2, cam1]]
     = Returns ([], Some cam1)"
  by (simp add: handler_defs sample_defs)

subsection \<open>What the validation handler does\<close>

lemma handleValidation_throws:
  "decomposition st = Some d \<Longrightarrow> selectedServices st \<noteq> [] \<Longrightarrow>
   buildValidated (selectedServices st) (d_candidates d) = Throws m \<Longrightarrow>
   handleValidation gw st = st\<lparr>loading := False, loadingLabel := '''', error := Some m\<rparr>"
  by (simp add: handleValidation_def stopLoading_def Let_def)

lemma handleValidation_conversation:
  "decomposition st = Some d \<Longrightarrow> selectedServices st \<noteq> [] \<Longrightarrow>
   buildValidated (selectedServices st) (d_candidates d) = Returns r \<Longrightarrow>
   conversationState (handleValidation gw st) =
     (conversationState st)
       \<lparr>services_valides := fst r, services_valides_proto := snd r,
        services_identifies := d_services_identifies d\<rparr>"
  by (simp add: handleValidation_def generateIntent_def stopLoading_def Let_def
           split: reply.splits)

lemma handleValidation_validatedServices:
  "decomposition st = Some d \<Longrightarrow> selectedServices st \<noteq> [] \<Longrightarrow>
   buildValidated (selectedServices st) (d_candidates d) = Returns r \<Longrightarrow>
   validatedServices (handleValidation gw st) = map fst (fst r)"
  by (simp add: handleValidation_def generateIntent_def stopLoading_def Let_def
           split: reply.splits)

lemma handleValidation_incomplete:
  "decomposition st = Some d \<Longrightarrow> selectedServices st \<noteq> [] \<Longrightarrow>
   buildValidated (selectedServices st) (d_candidates d) = Returns r \<Longrightarrow>
   \<not> allServicesValidated d (selectedServices st) \<Longrightarrow>
   activeStep (handleValidation gw st) = 3 \<and> sent (handleValidation gw st) = sent st \<and>
   error (handleValidation gw st) = None \<and> finalIntent (handleValidation gw st) = finalIntent st"
  by (simp add: handleValidation_def stopLoading_def Let_def)

lemma handleValidation_complete:
  "decomposition st = Some d \<Longrightarrow> selectedServices st \<noteq> [] \<Longrightarrow>
   buildValidated (selectedServices st) (d_candidates d) = Returns r \<Longrightarrow>
   allServicesValidated d (selectedServices st) \<Longrightarrow>
   body = \<lparr>g_services_valides = fst r, g_services_identifies = d_services_identifies d,
           g_user_request_original = user_request_original (conversationState st)\<rparr> \<Longrightarrow>
   sent (handleValidation gw st) = sent st @ [GenerateReq body] \<and>
   activeStep (handleValidation gw st) =
     (case api_generate gw body of Ok i \<Rightarrow> 4 | _ \<Rightarrow> activeStep st) \<and>
   finalIntent (handleValidation gw st) =
     (case api_generate gw body of Ok i \<Rightarrow> Some i | _ \<Rightarrow> finalIntent st) \<and>
   error (handleValidation gw st) =
     (case api_generate gw body of
        Ok i \<Rightarrow> None
      | r \<Rightarrow> Some (err_message ''Erreur de generation'' r))"
  by (simp add: handleValidation_def generateIntent_def stopLoading_def Let_def
           split: reply.splits)

subsection \<open>Picks without a catalog entry\<close>

text \<open>
  Claim C10 fails on the code for a picked name that \<open>Object.prototype\<close> defines. After a
  clarification answer that names \<open>Camera\<close> and \<open>constructor\<close> as already validated, the
  picks hold an entry for \<open>constructor\<close>, which the catalog does not list. The validation
  click then ends in the \<open>catch\<close>: the optional chaining does not stop at the inherited
  function, the call of \<open>find\<close> throws, the message is shown, and nothing else changes:
  the pick for \<open>Camera\<close> is not validated again and no request is sent.
\<close>

theorem validation_throws_on_inherited_name:
  "activeStep (run sessionInherited initialApp) = 2 \<and>
   decomposition (run sessionInherited initialApp) = Some round6 \<and>
   selectedServices (run sessionInherited initialApp) =
     [(''Camera'', Some ''cam-1''), (''constructor'', None)] \<and>
   d_candidates round6 ''constructor'' = None \<and>
   services_valides (conversationState (run sessionInherited initialApp)) = [(''Camera'', cam1)] \<and>
   fire gwE ClickValidate (run sessionInherited initialApp) =
     (run sessionInherited initialApp)\<lparr>error := Some typeError_notFunction\<rparr>"
proof -
  let ?st = "run sessionInherited initialApp"
  have a: "activeStep ?st = 2 \<and> loading ?st = False \<and> loadingLabel ?st = ''''"
    by (simp add: handler_defs sample_defs)
  have d: "decomposition ?st = Some round6"
    by (simp add: handler_defs sample_defs)
  have s: "selectedServices ?st = [(''Camera'', Some ''cam-1''), (''constructor'', None)]"
    by (simp add: handler_defs sample_defs)
  have s': "selectedServices ?st \<noteq> []" by (simp add: s)
  have n: "d_candidates round6 ''constructor'' = None" by (simp add: round6_def)
  have v: "services_valides (conversationState ?st) = [(''Camera'', cam1)]"
    by (simp add: handler_defs sample_defs)
  have t: "buildValidated (selectedServices ?st) (d_candidates round6)
             = Throws typeError_notFunction"
    unfolding s by (simp add: handler_defs sample_defs)
  have "fire gwE ClickValidate ?st = handleValidation gwE ?st"
    using a d s' by simp
  also have "\<dots> = ?st\<lparr>loading := False, loadingLabel := '''',
                        error := Some typeError_notFunction\<rparr>"
    by (rule handleValidation_throws[OF d s' t])
  also have "\<dots> = ?st\<lparr>error := Some typeError_notFunction\<rparr>"
    using a by (cases ?st) simp
  finally show ?thesis using a d s n v by simp
qed

subsection \<open>Invariants of a session\<close>

lemmas handler_unfold =
  handleClassification_def handleDecomposition_def handleValidation_def
  handleClarification_def handleAlternatives_def generateIntent_def stopLoading_def
  resetWorkflow_def Let_def

lemma run_snoc: "run (evs @ [(gw, ev)]) st = fire gw ev (run evs st)"
  by (simp add: run_def)

lemma run_invariant:
  assumes "P initialApp" and "\<And>gw ev st. P st \<Longrightarrow> P (fire gw ev st)"
  shows "P (run evs initialApp)"
proof (induction evs rule: rev_induct)
  case Nil
  then show ?case using assms(1) by (simp add: run_def)
next
  case (snoc x xs)
  then show ?case using assms(2) by (cases x) (simp add: run_snoc)
qed

lemma fire_loading: "\<not> loading st \<Longrightarrow> \<not> loading (fire gw ev st)"
  by (cases ev) (auto simp: handler_unfold split: reply.splits option.splits outcome.splits)

lemma run_not_loading: "\<not> loading (run evs initialApp)"
  by (rule run_invariant) (simp_all add: initialApp_def fire_loading)

lemma distinct_preSelectStep:
  "distinct (map fst acc) \<Longrightarrow> distinct (map fst (preSelectStep v p cat n acc))"
  by (simp add: preSelectStep_def assignPick_def AList.distinct_update
           split: option.splits list.splits existing.splits prop_read.splits)

lemma distinct_fold_preSelectStep:
  "distinct (map fst acc) \<Longrightarrow> distinct (map fst (fold (preSelectStep v p cat) pre acc))"
  by (induction pre arbitrary: acc) (simp_all add: distinct_preSelectStep)

lemma distinct_preSelect: "distinct (map fst (preSelect v p data))"
  by (simp add: preSelect_def distinct_fold_preSelectStep split: option.splits)

lemma fire_distinct_picks:
  "distinct (map fst (selectedServices st)) \<Longrightarrow>
   distinct (map fst (selectedServices (fire gw ev st)))"
  by (cases ev)
     (auto simp: handler_unfold distinct_preSelect AList.distinct_update
           split: reply.splits option.splits outcome.splits)

lemma run_distinct_picks: "distinct (map fst (selectedServices (run evs initialApp)))"
  by (rule run_invariant) (simp_all add: initialApp_def fire_distinct_picks)

lemma fire_validated_names:
  "validatedServices st = map fst (services_valides (conversationState st)) \<Longrightarrow>
   validatedServices (fire gw ev st) =
     map fst (services_valides (conversationState (fire gw ev st)))"
  by (cases ev)
     (auto simp: handler_unfold emptyConversation_def
           split: reply.splits option.splits outcome.splits)

lemma run_validated_names:
  "validatedServices (run evs initialApp) =
     map fst (services_valides (conversationState (run evs initialApp)))"
  by (rule run_invariant)
     (simp_all add: initialApp_def emptyConversation_def fire_validated_names)

lemma fire_frame_validated:
  "ev \<noteq> ClickValidate \<Longrightarrow> ev \<noteq> ClickReset \<Longrightarrow>
   validatedServices (fire gw ev st) = validatedServices st \<and>
   services_valides (conversationState (fire gw ev st)) = services_valides (conversationState st)"
  by (cases ev)
     (auto simp: handler_unfold split: reply.splits option.splits)

subsection \<open>The displayed names and the validated selection\<close>

text \<open>
  Claim C9. After any session, the displayed list \<open>validatedServices\<close> is the list of
  keys of \<open>conversationState.services_valides\<close>, so the two have the same set of names.
  Both are empty in the initial state, \<open>resetWorkflow\<close> empties both, and every event
  other than the validation click and the reset click leaves both as they were.
\<close>

theorem validated_names_track_selection:
  "validatedServices (run evs initialApp) =
     map fst (services_valides (conversationState (run evs initialApp))) \<and>
   set (validatedServices (run evs initialApp)) =
     fst ` set (services_valides (conversationState (run evs initialApp))) \<and>
   validatedServices initialApp = [] \<and>
   services_valides (conversationState initialApp) = [] \<and>
   validatedServices (fire gw ClickReset st) = (if resetShown st then [] else validatedServices st) \<and>
   services_valides (conversationState (fire gw ClickReset st)) =
     (if resetShown st then [] else services_valides (conversationState st)) \<and>
   (ev \<noteq> ClickValidate \<and> ev \<noteq> ClickReset \<longrightarrow>
      validatedServices (fire gw ev st) = validatedServices st \<and>
      services_valides (conversationState (fire gw ev st)) =
        services_valides (conversationState st))"
proof -
  have a: "validatedServices (run evs initialApp) =
     map fst (services_valides (conversationState (run evs initialApp)))"
    by (rule run_validated_names)
  then have b: "set (validatedServices (run evs initialApp)) =
     fst ` set (services_valides (conversationState (run evs initialApp)))"
    by simp
  have c: "validatedServices initialApp = [] \<and>
           services_valides (conversationState initialApp) = []"
    by (simp add: initialApp_def emptyConversation_def)
  have d: "validatedServices (fire gw ClickReset st) =
             (if resetShown st then [] else validatedServices st) \<and>
           services_valides (conversationState (fire gw ClickReset st)) =
             (if resetShown st then [] else services_valides (conversationState st))"
    by (simp add: resetWorkflow_def emptyConversation_def)
  from a b c d fire_frame_validated[of ev gw st] show ?thesis by blast
qed

theorem validated_names_track_selection_witness:
  "ClickClarify \<noteq> ClickValidate \<and> ClickClarify \<noteq> ClickReset \<and>
   validatedServices (run sessionTyped initialApp) = [''Camera''] \<and>
   validatedServices (fire gwA ClickClarify (run sessionTyped initialApp)) = [''Camera''] \<and>
   services_valides (conversationState (fire gwA ClickClarify (run sessionTyped initialApp))) =
     [(''Camera'', cam1)]"
proof -
  have v: "validatedServices (run sessionTyped initialApp) = [''Camera'']"
    by (simp add: handler_defs sample_defs)
  have s: "services_valides (conversationState (run sessionTyped initialApp)) =
             [(''Camera'', cam1)]"
    by (simp add: handler_defs sample_defs)
  from validated_names_track_selection[of "[]" gwA "run sessionTyped initialApp" ClickClarify]
  have "validatedServices (fire gwA ClickClarify (run sessionTyped initialApp)) =
          validatedServices (run sessionTyped initialApp) \<and>
        services_valides (conversationState (fire gwA ClickClarify (run sessionTyped initialApp))) =
          services_valides (conversationState (run sessionTyped initialApp))"
    by blast
  with v s show ?thesis by simp
qed

subsection \<open>Finishing with the validated services\<close>

text \<open>
  Claim C6, as amended. In any state a session can reach, when the validated selection
  is empty the button of option 3 is disabled: the click is rejected and the state is
  exactly what it was, so there is no transition, no change of \<open>conversationState\<close>, no
  request and no error message.
\<close>

theorem finish_disabled_when_empty:
  "services_valides (conversationState (run evs initialApp)) = [] \<Longrightarrow>
   fire gw ClickFinish (run evs initialApp) = run evs initialApp"
  using run_validated_names[of evs] by simp

theorem finish_disabled_when_empty_witness:
  "services_valides (conversationState (run sessionEmptied initialApp)) = [] \<and>
   activeStep (run sessionEmptied initialApp) = 3 \<and>
   fire gwA ClickFinish (run sessionEmptied initialApp) = run sessionEmptied initialApp"
proof -
  have e: "services_valides (conversationState (run sessionEmptied initialApp)) = []"
    by (simp add: handler_defs sample_defs)
  have s: "activeStep (run sessionEmptied initialApp) = 3"
    by (simp add: handler_defs sample_defs)
  from e s finish_disabled_when_empty[OF e, of gwA] show ?thesis by blast
qed

text \<open>
  Claim C6 as stated fails: with an empty validated selection at step 3 the click sets no
  error message, and \<open>generateIntent\<close>, which the button calls, has no emptiness check of
  its own: called there it sends the generation request with an empty selection and
  reaches step 4.
\<close>

theorem finish_request_error_counterexample:
  "services_valides (conversationState (run sessionEmptied initialApp)) = [] \<and>
   error (fire gwA ClickFinish (run sessionEmptied initialApp)) = None \<and>
   sent (generateIntent gwA None None (run sessionEmptied initialApp)) =
     sent (run sessionEmptied initialApp) @
       [GenerateReq \<lparr>g_services_valides = [], g_services_identifies = [svcCamera, svcAlert],
                     g_user_request_original = ''camera 5G avec alerte''\<rparr>] \<and>
   error (generateIntent gwA None None (run sessionEmptied initialApp)) = None \<and>
   activeStep (generateIntent gwA None None (run sessionEmptied initialApp)) = 4"
  by (simp add: handler_defs sample_defs)

subsection \<open>Validation across rounds\<close>

text \<open>
  Claim C1, as amended. When no picked name is a property name of \<open>Object.prototype\<close>, a
  validation click that the page accepts replaces the validated selection by the one
  built from this round's picks and this round's catalog: a name has an entry afterwards
  iff it has a pick this round whose id the catalog lists for it, and the entry is the
  catalog's candidate with that id. A service validated in an earlier round keeps a
  candidate only through such a pick (the pre-selection of \<open>handleClarification\<close>
  provides one for the names the service reports as already validated); a name without a
  pick this round is dropped.
\<close>

theorem validation_rebuilds_selection:
  "activeStep (run evs initialApp) = 2 \<Longrightarrow>
   decomposition (run evs initialApp) = Some d \<Longrightarrow>
   selectedServices (run evs initialApp) \<noteq> [] \<Longrightarrow>
   set (map fst (selectedServices (run evs initialApp))) \<inter> set protoNames = {} \<Longrightarrow>
     buildValidated (selectedServices (run evs initialApp)) (d_candidates d) =
       Returns (services_valides (conversationState (fire gw ClickValidate (run evs initialApp))),
                None) \<and>
     map_of (services_valides (conversationState (fire gw ClickValidate (run evs initialApp)))) n =
       (case map_of (selectedServices (run evs initialApp)) n of
          Some (Some sid) \<Rightarrow>
            (case d_candidates d n of
               None \<Rightarrow> None
             | Some candidates \<Rightarrow> find (\<lambda>c. service_id c = sid) candidates)
        | _ \<Rightarrow> None)"
proof -
  let ?st = "run evs initialApp"
  assume a: "activeStep ?st = 2" and d: "decomposition ?st = Some d"
    and s: "selectedServices ?st \<noteq> []"
    and o: "set (map fst (selectedServices ?st)) \<inter> set protoNames = {}"
  have f: "fire gw ClickValidate ?st = handleValidation gw ?st"
    using a d s run_not_loading[of evs] by simp
  from buildValidated_ordinary[OF run_distinct_picks o, of "d_candidates d"]
  obtain v where r: "buildValidated (selectedServices ?st) (d_candidates d) = Returns (v, None)"
    and m: "\<And>n. map_of v n =
              (case map_of (selectedServices ?st) n of
                 Some (Some sid) \<Rightarrow>
                   (case d_candidates d n of
                      None \<Rightarrow> None
                    | Some candidates \<Rightarrow> find (\<lambda>c. service_id c = sid) candidates)
               | _ \<Rightarrow> None)"
    by blast
  have v: "services_valides (conversationState (fire gw ClickValidate ?st)) = v"
    unfolding f using handleValidation_conversation[OF d s r, of gw] by simp
  from r m[of n] show ?thesis unfolding v by simp
qed

theorem validation_rebuilds_selection_witness:
  "activeStep (run sessionKept initialApp) = 2 \<and>
   decomposition (run sessionKept initialApp) = Some round5 \<and>
   selectedServices (run sessionKept initialApp) =
     [(''Camera'', Some ''cam-1''), (''Alert'', Some ''al-2'')] \<and>
   set (map fst (selectedServices (run sessionKept initialApp))) \<inter> set protoNames = {} \<and>
   map_of (services_valides (conversationState (run sessionKept initialApp))) ''Camera''
     = Some cam1 \<and>
   map_of (services_valides (conversationState
             (fire gwD ClickValidate (run sessionKept initialApp)))) ''Camera'' = Some cam1 \<and>
   map_of (services_valides (conversationState
             (fire gwD ClickValidate (run sessionKept initialApp)))) ''Alert'' = Some al2"
proof -
  have a: "activeStep (run sessionKept initialApp) = 2"
    by (simp add: handler_defs sample_defs)
  have d: "decomposition (run sessionKept initialApp) = Some round5"
    by (simp add: handler_defs sample_defs)
  have s: "selectedServices (run sessionKept initialApp) =
             [(''Camera'', Some ''cam-1''), (''Alert'', Some ''al-2'')]"
    by (simp add: handler_defs sample_defs)
  have s': "selectedServices (run sessionKept initialApp) \<noteq> []" by (simp add: s)
  have p: "set (map fst (selectedServices (run sessionKept initialApp))) \<inter> set protoNames = {}"
    by (simp add: s protoNames_def)
  have o: "map_of (services_valides (conversationState (run sessionKept initialApp))) ''Camera''
             = Some cam1"
    by (simp add: handler_defs sample_defs)
  have c: "map_of (services_valides (conversationState
             (fire gwD ClickValidate (run sessionKept initialApp)))) ''Camera'' = Some cam1"
    using validation_rebuilds_selection[OF a d s' p, of gwD "''Camera''", THEN conjunct2]
    by (simp add: s round5_def cam1_def cam2_def)
  have l: "map_of (services_valides (conversationState
             (fire gwD ClickValidate (run sessionKept initialApp)))) ''Alert'' = Some al2"
    using validation_rebuilds_selection[OF a d s' p, of gwD "''Alert''", THEN conjunct2]
    by (simp add: s round5_def al2_def)
  from a d s p o c l show ?thesis by blast
qed

text \<open>
  Claim C1 as stated fails: \<open>Camera\<close> is validated with \<open>cam-1\<close> in the first round; the
  clarification answer names no pre-validated service, the user picks only \<open>Alert\<close> in
  the second round, and after the second validation \<open>Camera\<close> has no entry.
\<close>

theorem validation_merge_counterexample:
  "map_of (services_valides (conversationState (run sessionRound1 initialApp))) ''Camera''
     = Some cam1 \<and>
   selectedServices (run sessionClarified initialApp) = [] \<and>
   sessionRound2 =
     sessionClarified @ [(gwA, ChooseCandidate ''Alert'' ''al-2''), (gwA, ClickValidate)] \<and>
   map_of (services_valides (conversationState (run sessionRound2 initialApp))) ''Camera''
     = None \<and>
   services_valides (conversationState (run sessionRound2 initialApp)) = [(''Alert'', al2)]"
  by (simp add: handler_defs sample_defs)

subsection \<open>The completeness check\<close>

lemma picked_ordinary:
  "n \<notin> set protoNames \<Longrightarrow>
   picked sel n \<longleftrightarrow> (\<exists>sid. map_of sel n = Some (Some sid) \<and> sid \<noteq> [])"
  by (auto simp: picked_def getProp_ordinary split: option.splits)

lemma allServicesValidated_ordinary:
  "set (map nom (d_services_identifies d)) \<inter> set protoNames = {} \<Longrightarrow>
   allServicesValidated d sel \<longleftrightarrow>
     (\<forall>s \<in> set (d_services_identifies d).
        \<exists>sid. map_of sel (nom s) = Some (Some sid) \<and> sid \<noteq> [])"
proof -
  assume o: "set (map nom (d_services_identifies d)) \<inter> set protoNames = {}"
  have "picked sel (nom s) \<longleftrightarrow> (\<exists>sid. map_of sel (nom s) = Some (Some sid) \<and> sid \<noteq> [])"
    if "s \<in> set (d_services_identifies d)" for s
    using that o by (intro picked_ordinary) auto
  then show ?thesis by (simp add: allServicesValidated_def list_all_iff)
qed

lemma buildValidated_returns:
  "set (map fst picks) \<inter> set protoNames = {} \<Longrightarrow>
   \<exists>v. buildValidated picks cat = Returns (v, None)"
proof -
  assume o: "set (map fst picks) \<inter> set protoNames = {}"
  from buildLoop_returns[OF o, of cat "([], None)"]
  obtain r where r: "buildLoop cat picks ([], None) = Returns r" by blast
  from o proto_is_protoName have "''__proto__'' \<notin> set (map fst picks)" by blast
  from buildLoop_proto[OF r this] have "snd r = None" by simp
  with r show ?thesis by (cases r) (simp add: buildValidated_def)
qed

text \<open>
  Claim C2, as amended. When neither a picked name nor the name of an identified service
  is a property name of \<open>Object.prototype\<close>, the completeness check of
  \<open>handleValidation\<close> is true iff every service of the current decomposition has a pick
  with a non-empty id; it reads the picks, not the validated selection. When it is true
  the handler sends the generation request with the selection it has just built and the
  current identified services, and reaches step 4 with the returned intent when the call
  succeeds (the step is unchanged when it fails); step 3 is entered, and no request sent,
  only when the check is false.
\<close>

theorem completeness_check:
  "decomposition st = Some d \<Longrightarrow> selectedServices st \<noteq> [] \<Longrightarrow>
   set (map fst (selectedServices st)) \<inter> set protoNames = {} \<Longrightarrow>
   set (map nom (d_services_identifies d)) \<inter> set protoNames = {} \<Longrightarrow>
     (allServicesValidated d (selectedServices st) \<longleftrightarrow>
        (\<forall>s \<in> set (d_services_identifies d).
           \<exists>sid. map_of (selectedServices st) (nom s) = Some (Some sid) \<and> sid \<noteq> [])) \<and>
     (let body =
            \<lparr>g_services_valides = services_valides (conversationState (handleValidation gw st)),
             g_services_identifies = d_services_identifies d,
             g_user_request_original = user_request_original (conversationState st)\<rparr>
      in (allServicesValidated d (selectedServices st) \<longrightarrow>
            sent (handleValidation gw st) = sent st @ [GenerateReq body] \<and>
            activeStep (handleValidation gw st) =
              (case api_generate gw body of Ok i \<Rightarrow> 4 | _ \<Rightarrow> activeStep st) \<and>
            finalIntent (handleValidation gw st) =
              (case api_generate gw body of Ok i \<Rightarrow> Some i | _ \<Rightarrow> finalIntent st))) \<and>
     (\<not> allServicesValidated d (selectedServices st) \<longrightarrow>
        sent (handleValidation gw st) = sent st \<and> activeStep (handleValidation gw st) = 3)"
proof -
  assume d: "decomposition st = Some d" and s: "selectedServices st \<noteq> []"
    and o: "set (map fst (selectedServices st)) \<inter> set protoNames = {}"
    and i: "set (map nom (d_services_identifies d)) \<inter> set protoNames = {}"
  from buildValidated_returns[OF o, of "d_candidates d"]
  obtain v where r: "buildValidated (selectedServices st) (d_candidates d) = Returns (v, None)"
    by blast
  have v: "services_valides (conversationState (handleValidation gw st)) = v"
    using handleValidation_conversation[OF d s r, of gw] by simp
  have b: "\<lparr>g_services_valides = services_valides (conversationState (handleValidation gw st)),
            g_services_identifies = d_services_identifies d,
            g_user_request_original = user_request_original (conversationState st)\<rparr> =
           \<lparr>g_services_valides = fst (v, None :: candidate option),
            g_services_identifies = d_services_identifies d,
            g_user_request_original = user_request_original (conversationState st)\<rparr>"
    using v by simp
  show ?thesis
    unfolding Let_def
    using allServicesValidated_ordinary[OF i, of "selectedServices st"]
      handleValidation_complete[OF d s r _ b, of gw]
      handleValidation_incomplete[OF d s r, of gw]
    by blast
qed

theorem completeness_check_witness:
  "decomposition (run sessionPicked initialApp) = Some round1 \<and>
   selectedServices (run sessionPicked initialApp) =
     [(''Camera'', Some ''cam-1''), (''Alert'', Some ''al-1'')] \<and>
   set (map nom (d_services_identifies round1)) \<inter> set protoNames = {} \<and>
   allServicesValidated round1 (selectedServices (run sessionPicked initialApp)) \<and>
   activeStep (run sessionPicked initialApp) = 2 \<and>
   activeStep (handleValidation gwA (run sessionPicked initialApp)) = 4 \<and>
   finalIntent (handleValidation gwA (run sessionPicked initialApp)) = Some intent0"
proof -
  have d: "decomposition (run sessionPicked initialApp) = Some round1"
    by (simp add: handler_defs sample_defs)
  have s: "selectedServices (run sessionPicked initialApp) =
             [(''Camera'', Some ''cam-1''), (''Alert'', Some ''al-1'')]"
    by (simp add: handler_defs sample_defs)
  have s': "selectedServices (run sessionPicked initialApp) \<noteq> []" by (simp add: s)
  have o: "set (map fst (selectedServices (run sessionPicked initialApp))) \<inter> set protoNames = {}"
    by (simp add: s protoNames_def)
  have i: "set (map nom (d_services_identifies round1)) \<inter> set protoNames = {}"
    by (simp add: round1_def svcCamera_def svcAlert_def protoNames_def)
  have a: "allServicesValidated round1 (selectedServices (run sessionPicked initialApp))"
    by (simp add: s allServicesValidated_def picked_def getProp_def round1_def svcCamera_def
          svcAlert_def)
  have t: "activeStep (run sessionPicked initialApp) = 2"
    by (simp add: handler_defs sample_defs)
  have g: "api_generate gwA body = Ok intent0" for body by (simp add: gwA_def)
  from completeness_check[OF d s' o i, of gwA] a
  have "activeStep (handleValidation gwA (run sessionPicked initialApp)) = 4 \<and>
        finalIntent (handleValidation gwA (run sessionPicked initialApp)) = Some intent0"
    by (simp add: g Let_def)
  then show ?thesis using d s i a t by blast
qed

text \<open>
  Claim C2 as stated fails: after a clarification answer that names \<open>Camera\<close> as already
  validated but no longer offers \<open>cam-1\<close>, the pre-filled pick makes the check true, the
  validated selection built from it has no entry for \<open>Camera\<close>, and the workflow still
  reaches step 4.
\<close>

theorem completeness_check_counterexample:
  "decomposition (run sessionStale initialApp) = Some round3 \<and>
   selectedServices (run sessionStale initialApp) = [(''Camera'', Some ''cam-1'')] \<and>
   allServicesValidated round3 (selectedServices (run sessionStale initialApp)) \<and>
   services_identifies (conversationState (fire gwB ClickValidate (run sessionStale initialApp)))
     = [svcCamera] \<and>
   services_valides (conversationState (fire gwB ClickValidate (run sessionStale initialApp)))
     = [] \<and>
   activeStep (fire gwB ClickValidate (run sessionStale initialApp)) = 4"
  by (simp add: handler_defs sample_defs)

subsection \<open>Pre-selection after a clarification\<close>

lemma existingCandidate_ordinary:
  "n \<notin> set protoNames \<Longrightarrow>
   existingCandidate valides None n =
     (case map_of valides n of
        Some c \<Rightarrow> Existing (Some (service_id c))
      | None \<Rightarrow> NoExisting)"
  by (simp add: existingCandidate_def split: option.splits)

lemma map_of_assignPick:
  "map_of (assignPick x v acc) n =
     (if n = x \<and> x \<noteq> ''__proto__'' then Some v else map_of acc n)"
  by (simp add: assignPick_def AList.update_conv')

lemma map_of_preSelectStep_other:
  "n \<noteq> x \<Longrightarrow> map_of (preSelectStep valides vproto cat x acc) n = map_of acc n"
  by (simp add: preSelectStep_def map_of_assignPick
           split: existing.splits prop_read.splits list.splits)

lemma map_of_preSelectStep_same:
  "n \<notin> set protoNames \<Longrightarrow>
   map_of (preSelectStep valides None cat n acc) n =
     (case map_of valides n of
        Some c \<Rightarrow> Some (Some (service_id c))
      | None \<Rightarrow>
          (case cat n of
             Some (c # cs) \<Rightarrow> Some (Some (service_id c))
           | _ \<Rightarrow> map_of acc n))"
  using proto_is_protoName
  by (auto simp: preSelectStep_def existingCandidate_ordinary getProp_ordinary map_of_assignPick
           split: option.splits list.splits)

lemma map_of_fold_preSelectStep:
  "n \<notin> set protoNames \<Longrightarrow>
   map_of (fold (preSelectStep valides None cat) pre acc) n =
     (if n \<in> set pre then
        (case map_of valides n of
           Some c \<Rightarrow> Some (Some (service_id c))
         | None \<Rightarrow>
             (case cat n of
                Some (c # cs) \<Rightarrow> Some (Some (service_id c))
              | _ \<Rightarrow> map_of acc n))
      else map_of acc n)"
proof (induction pre arbitrary: acc)
  case Nil
  then show ?case by simp
next
  case (Cons x pre)
  show ?case
  proof (cases "n = x")
    case True
    then show ?thesis
      using Cons.IH[OF Cons.prems, of "preSelectStep valides None cat x acc"]
        map_of_preSelectStep_same[OF Cons.prems, of valides cat acc]
      by (simp split: option.splits list.splits)
  next
    case False
    then show ?thesis
      using Cons.IH[OF Cons.prems, of "preSelectStep valides None cat x acc"]
      by (simp add: map_of_preSelectStep_other split: option.splits list.splits)
  qed
qed

lemma map_of_preSelect:
  "n \<notin> set protoNames \<Longrightarrow>
   map_of (preSelect valides None data) n =
     (if n \<in> set (case d_pre_validated_services data of None \<Rightarrow> [] | Some pre \<Rightarrow> pre) then
        (case map_of valides n of
           Some c \<Rightarrow> Some (Some (service_id c))
         | None \<Rightarrow>
             (case d_candidates data n of
                Some (c # cs) \<Rightarrow> Some (Some (service_id c))
              | _ \<Rightarrow> None))
      else None)"
  by (simp add: preSelect_def map_of_fold_preSelectStep split: option.splits list.splits)

text \<open>
  Claim C3, as amended. Take a name that is not a property name of \<open>Object.prototype\<close>,
  and a validated selection whose prototype was not replaced (no service called
  \<open>__proto__\<close> was validated). When the clarification call succeeds, the new picks hold,
  if the name is listed in \<open>pre_validated_services\<close>: the id of the candidate already
  validated for that name, whenever the validated selection has one, whether or not the
  new catalog still offers that id; otherwise the id of the first candidate of the new
  catalog for that name; and no pick when the validated selection has no entry and the
  catalog has no candidate for it. A name that is not listed has no pick, and all picks
  are cleared when the list is absent or empty.
\<close>

theorem clarification_prefills_picks:
  "\<not> blank (clarificationResponse st) \<Longrightarrow> decomposition st = Some d \<Longrightarrow>
   api_clarify gw (clarifyBody st d) = Ok data \<Longrightarrow>
   services_valides_proto (conversationState st) = None \<Longrightarrow>
   n \<notin> set protoNames \<Longrightarrow>
     decomposition (handleClarification gw st) = Some data \<and>
     map_of (selectedServices (handleClarification gw st)) n =
       (if n \<in> set (case d_pre_validated_services data of None \<Rightarrow> [] | Some pre \<Rightarrow> pre) then
          (case map_of (services_valides (conversationState st)) n of
             Some existing \<Rightarrow> Some (Some (service_id existing))
           | None \<Rightarrow>
               (case d_candidates data n of
                  Some (c # cs) \<Rightarrow> Some (Some (service_id c))
                | _ \<Rightarrow> None))
        else None)"
  by (simp add: handleClarification_def stopLoading_def Let_def map_of_preSelect)

theorem clarification_prefills_picks_witness:
  "\<not> blank (clarificationResponse (run sessionTyped initialApp)) \<and>
   decomposition (run sessionTyped initialApp) = Some round1 \<and>
   api_clarify gwD (clarifyBody (run sessionTyped initialApp) round1) = Ok round5 \<and>
   services_valides_proto (conversationState (run sessionTyped initialApp)) = None \<and>
   ''Camera'' \<notin> set protoNames \<and> ''Alert'' \<notin> set protoNames \<and>
   map_of (selectedServices (handleClarification gwD (run sessionTyped initialApp))) ''Camera''
     = Some (Some ''cam-1'') \<and>
   map_of (selectedServices (handleClarification gwD (run sessionTyped initialApp))) ''Alert''
     = None"
proof -
  have b: "\<not> blank (clarificationResponse (run sessionTyped initialApp))"
    by (simp add: handler_defs sample_defs)
  have d: "decomposition (run sessionTyped initialApp) = Some round1"
    by (simp add: handler_defs sample_defs)
  have r: "api_clarify gwD (clarifyBody (run sessionTyped initialApp) round1) = Ok round5"
    by (simp add: gwD_def gwA_def)
  have p: "services_valides_proto (conversationState (run sessionTyped initialApp)) = None"
    by (simp add: handler_defs sample_defs)
  have v: "services_valides (conversationState (run sessionTyped initialApp)) =
             [(''Camera'', cam1)]"
    by (simp add: handler_defs sample_defs)
  have nc: "''Camera'' \<notin> set protoNames" and na: "''Alert'' \<notin> set protoNames"
    by (simp_all add: protoNames_def)
  have c: "map_of (selectedServices (handleClarification gwD (run sessionTyped initialApp)))
             ''Camera'' = Some (Some ''cam-1'')"
    using clarification_prefills_picks[OF b d r p nc]
    by (simp add: v round5_def cam1_def)
  have a: "map_of (selectedServices (handleClarification gwD (run sessionTyped initialApp)))
             ''Alert'' = None"
    using clarification_prefills_picks[OF b d r p na]
    by (simp add: v round5_def)
  from b d r p nc na c a show ?thesis by blast
qed

text \<open>
  Claim C3 as stated fails: \<open>Camera\<close> was validated with \<open>cam-1\<close>; the new round lists
  \<open>Camera\<close> as pre-validated and offers only \<open>cam-2\<close> for it; the pick is pre-filled with
  \<open>cam-1\<close>, which the new catalog does not contain, and not with the first candidate.
\<close>

theorem clarification_prefill_counterexample:
  "map_of (services_valides (conversationState (run sessionRound1 initialApp))) ''Camera''
     = Some cam1 \<and>
   decomposition (run sessionStale initialApp) = Some round3 \<and>
   d_pre_validated_services round3 = Some [''Camera''] \<and>
   d_candidates round3 ''Camera'' = Some [cam2] \<and>
   find (\<lambda>c. service_id c = ''cam-1'') [cam2] = None \<and>
   service_id cam2 = ''cam-2'' \<and>
   map_of (selectedServices (run sessionStale initialApp)) ''Camera'' = Some (Some ''cam-1'')"
  by (simp add: handler_defs sample_defs)

subsection \<open>Errors\<close>

lemma handleClassification_error:
  "error (handleClassification gw st) \<noteq> None \<Longrightarrow>
   activeStep (handleClassification gw st) = activeStep st \<and>
   conversationState (handleClassification gw st) = conversationState st"
  by (auto simp: handleClassification_def handleDecomposition_def stopLoading_def Let_def
           split: if_splits reply.splits)

lemma handleClarification_error:
  "error (handleClarification gw st) \<noteq> None \<Longrightarrow>
   activeStep (handleClarification gw st) = activeStep st \<and>
   conversationState (handleClarification gw st) = conversationState st"
  by (auto simp: handleClarification_def stopLoading_def Let_def
           split: if_splits reply.splits option.splits)

lemma handleAlternatives_same:
  "activeStep (handleAlternatives gw st) = activeStep st \<and>
   conversationState (handleAlternatives gw st) = conversationState st"
  by (auto simp: handleAlternatives_def stopLoading_def Let_def
           split: reply.splits option.splits)

lemma generateIntent_error:
  "error (generateIntent gw sv si st) \<noteq> None \<Longrightarrow>
   activeStep (generateIntent gw sv si st) = activeStep st \<and>
   conversationState (generateIntent gw sv si st) = conversationState st"
  by (auto simp: generateIntent_def stopLoading_def Let_def split: reply.splits)

lemma handleValidation_error:
  "error (handleValidation gw st) \<noteq> None \<Longrightarrow>
   activeStep (handleValidation gw st) = activeStep st \<and>
   conversationState (handleValidation gw st) =
     (if selectedServices st = [] then conversationState st
      else case decomposition st of
             None \<Rightarrow> conversationState st
           | Some d \<Rightarrow>
               (case buildValidated (selectedServices st) (d_candidates d) of
                  Throws m \<Rightarrow> conversationState st
                | Returns validated \<Rightarrow>
                    (conversationState st)
                      \<lparr>services_valides := fst validated,
                       services_valides_proto := snd validated,
                       services_identifies := d_services_identifies d\<rparr>))"
  by (auto simp: handleValidation_def generateIntent_def stopLoading_def Let_def
           split: if_splits reply.splits option.splits outcome.splits)

text \<open>
  Claim C4, as amended. Each handler that can report an error clears the message before
  its first call, so a message in its result means that this run of the handler failed.
  Whenever \<open>handleClassification\<close> (with the decomposition it chains), \<open>handleClarification\<close>,
  \<open>handleAlternatives\<close> or \<open>generateIntent\<close> ends with an error, the step and every field
  of \<open>conversationState\<close> are what they were. Whenever \<open>handleValidation\<close> ends with an
  error the step is what it was; \<open>conversationState\<close> is unchanged when the error is the
  missing selection or an exception of the building loop, and otherwise (the generation
  call failed) it already holds the selection built in this round and the identified
  services of the current decomposition.
\<close>

theorem errors_keep_step:
  "(error (handleClassification gw st) \<noteq> None \<longrightarrow>
      activeStep (handleClassification gw st) = activeStep st \<and>
      conversationState (handleClassification gw st) = conversationState st) \<and>
   (error (handleClarification gw st) \<noteq> None \<longrightarrow>
      activeStep (handleClarification gw st) = activeStep st \<and>
      conversationState (handleClarification gw st) = conversationState st) \<and>
   (error (handleAlternatives gw st) \<noteq> None \<longrightarrow>
      activeStep (handleAlternatives gw st) = activeStep st \<and>
      conversationState (handleAlternatives gw st) = conversationState st) \<and>
   (error (generateIntent gw sv si st) \<noteq> None \<longrightarrow>
      activeStep (generateIntent gw sv si st) = activeStep st \<and>
      conversationState (generateIntent gw sv si st) = conversationState st) \<and>
   (error (handleValidation gw st) \<noteq> None \<longrightarrow>
      activeStep (handleValidation gw st) = activeStep st \<and>
      conversationState (handleValidation gw st) =
        (if selectedServices st = [] then conversationState st
         else case decomposition st of
                None \<Rightarrow> conversationState st
              | Some d \<Rightarrow>
                  (case buildValidated (selectedServices st) (d_candidates d) of
                     Throws m \<Rightarrow> conversationState st
                   | Returns validated \<Rightarrow>
                       (conversationState st)
                         \<lparr>services_valides := fst validated,
                          services_valides_proto := snd validated,
                          services_identifies := d_services_identifies d\<rparr>)))"
  using handleClassification_error[of gw st] handleClarification_error[of gw st]
    handleAlternatives_same[of gw st] generateIntent_error[of gw sv si st]
    handleValidation_error[of gw st]
  by blast

theorem errors_keep_step_witness:
  "error (handleClassification gwA initialApp) = Some ''Veuillez entrer une demande'' \<and>
   activeStep (handleClassification gwA initialApp) = 0 \<and>
   conversationState (handleClassification gwA initialApp) = emptyConversation \<and>
   error (generateIntent gwDown None None (run sessionRound1 initialApp))
     = Some ''Service indisponible'' \<and>
   activeStep (generateIntent gwDown None None (run sessionRound1 initialApp)) = 3 \<and>
   services_valides (conversationState
       (generateIntent gwDown None None (run sessionRound1 initialApp))) = [(''Camera'', cam1)] \<and>
   error (handleValidation gwDown (run sessionPicked initialApp)) = Some ''Service indisponible'' \<and>
   activeStep (handleValidation gwDown (run sessionPicked initialApp)) = 2 \<and>
   services_valides (conversationState (handleValidation gwDown (run sessionPicked initialApp)))
     = [(''Camera'', cam1), (''Alert'', al1)]"
proof -
  have e1: "error (handleClassification gwA initialApp) = Some ''Veuillez entrer une demande''"
    by (simp add: handler_defs sample_defs)
  have e2: "error (generateIntent gwDown None None (run sessionRound1 initialApp))
              = Some ''Service indisponible''"
    by (simp add: handler_defs sample_defs)
  have e3: "error (handleValidation gwDown (run sessionPicked initialApp))
              = Some ''Service indisponible''"
    by (simp add: handler_defs sample_defs)
  have s0: "activeStep initialApp = 0 \<and> conversationState initialApp = emptyConversation"
    by (simp add: initialApp_def)
  have s1: "activeStep (run sessionRound1 initialApp) = 3 \<and>
            services_valides (conversationState (run sessionRound1 initialApp)) =
              [(''Camera'', cam1)]"
    by (simp add: handler_defs sample_defs)
  have s2: "activeStep (run sessionPicked initialApp) = 2 \<and>
            selectedServices (run sessionPicked initialApp) =
              [(''Camera'', Some ''cam-1''), (''Alert'', Some ''al-1'')] \<and>
            decomposition (run sessionPicked initialApp) = Some round1"
    by (simp add: handler_defs sample_defs)
  have b: "buildValidated [(''Camera'', Some ''cam-1''), (''Alert'', Some ''al-1'')]
             (d_candidates round1) = Returns ([(''Camera'', cam1), (''Alert'', al1)], None)"
    by (simp add: buildValidated_def validatedStep_def findCandidate_def getProp_def
          round1_def cam1_def cam2_def al1_def)
  have c1: "activeStep (handleClassification gwA initialApp) = 0 \<and>
            conversationState (handleClassification gwA initialApp) = emptyConversation"
    using errors_keep_step[of gwA initialApp None None] e1 s0 by simp
  have c2: "activeStep (generateIntent gwDown None None (run sessionRound1 initialApp)) = 3 \<and>
            services_valides (conversationState
              (generateIntent gwDown None None (run sessionRound1 initialApp))) =
              [(''Camera'', cam1)]"
    using errors_keep_step[of gwDown "run sessionRound1 initialApp" None None] e2 s1 by simp
  have c3: "activeStep (handleValidation gwDown (run sessionPicked initialApp)) = 2 \<and>
            services_valides (conversationState
              (handleValidation gwDown (run sessionPicked initialApp)))
              = [(''Camera'', cam1), (''Alert'', al1)]"
    using errors_keep_step[of gwDown "run sessionPicked initialApp" None None] e3 s2 b by simp
  from e1 e2 e3 c1 c2 c3 show ?thesis by blast
qed

text \<open>
  Claim C4 as stated fails: with both services picked and the generation service down,
  the validation click ends with an error at the same step, yet the validated selection,
  empty before the click, now holds both candidates.
\<close>

theorem validation_not_atomic_counterexample:
  "activeStep (run sessionPicked initialApp) = 2 \<and>
   services_valides (conversationState (run sessionPicked initialApp)) = [] \<and>
   error (fire gwDown ClickValidate (run sessionPicked initialApp))
     = Some ''Service indisponible'' \<and>
   activeStep (fire gwDown ClickValidate (run sessionPicked initialApp)) = 2 \<and>
   services_valides (conversationState (fire gwDown ClickValidate (run sessionPicked initialApp)))
     = [(''Camera'', cam1), (''Alert'', al1)] \<and>
   validatedServices (fire gwDown ClickValidate (run sessionPicked initialApp))
     = [''Camera'', ''Alert'']"
  by (simp add: handler_defs sample_defs)

subsection \<open>The history\<close>

lemma historique_handleDecomposition:
  "historique (conversationState (handleDecomposition gw st)) =
     historique (conversationState st) @
       (case api_decompose gw (userInput st) of
          Ok data \<Rightarrow> [''Demande: '' @ userInput st] | _ \<Rightarrow> [])"
  by (simp add: handleDecomposition_def Let_def split: reply.splits)

lemma historique_handleClassification:
  "historique (conversationState (handleClassification gw st)) =
     historique (conversationState st) @
       (if blank (userInput st) then []
        else case api_classify gw (userInput st) of
               Ok c \<Rightarrow>
                 if c_type c = ''TELECOM''
                 then (case api_decompose gw (userInput st) of
                         Ok data \<Rightarrow> [''Demande: '' @ userInput st] | _ \<Rightarrow> [])
                 else []
             | _ \<Rightarrow> [])"
  by (simp add: handleClassification_def handleDecomposition_def stopLoading_def Let_def
           split: reply.splits)

lemma historique_handleClarification:
  "historique (conversationState (handleClarification gw st)) =
     historique (conversationState st) @
       (if blank (clarificationResponse st) then []
        else case decomposition st of
               None \<Rightarrow> []
             | Some d \<Rightarrow>
                 (case api_clarify gw (clarifyBody st d) of
                    Ok data \<Rightarrow> [''Clarification: '' @ clarificationResponse st]
                  | _ \<Rightarrow> []))"
  by (simp add: handleClarification_def stopLoading_def Let_def
           split: reply.splits option.splits)

lemma historique_handleAlternatives:
  "historique (conversationState (handleAlternatives gw st)) =
     historique (conversationState st)"
  by (simp add: handleAlternatives_def stopLoading_def Let_def
           split: reply.splits option.splits)

lemma historique_generateIntent:
  "historique (conversationState (generateIntent gw sv si st)) =
     historique (conversationState st)"
  by (simp add: generateIntent_def stopLoading_def Let_def split: reply.splits)

lemma historique_handleValidation:
  "historique (conversationState (handleValidation gw st)) =
     historique (conversationState st)"
  by (simp add: handleValidation_def generateIntent_def stopLoading_def Let_def
           split: reply.splits option.splits outcome.splits)

lemma historique_fire:
  "ev \<noteq> ClickReset \<Longrightarrow>
   prefix (historique (conversationState st)) (historique (conversationState (fire gw ev st)))"
proof (cases ev)
  case ClickClassify
  then show ?thesis by (simp add: historique_handleClassification)
next
  case ClickValidate
  then show ?thesis by (simp add: historique_handleValidation)
next
  case ClickClarify
  then show ?thesis by (simp add: historique_handleClarification)
next
  case ClickAlternatives
  then show ?thesis by (simp add: historique_handleAlternatives)
next
  case ClickFinish
  then show ?thesis by (simp add: historique_generateIntent)
qed (auto split: option.splits)

text \<open>
  Claim C5, as amended. Only a successful decomposition call and a successful
  clarification call append to \<open>historique\<close>, one entry each (\<open>Demande: \<close> followed by the
  request, \<open>Clarification: \<close> followed by the answer); the classification call by itself,
  the alternatives call, the generation call and every failed call leave it as it was.
  Every event other than the reset click leaves the old history as a prefix of the new
  one.
\<close>

theorem history_appends:
  "historique (conversationState (handleClassification gw st)) =
     historique (conversationState st) @
       (if blank (userInput st) then []
        else case api_classify gw (userInput st) of
               Ok c \<Rightarrow>
                 if c_type c = ''TELECOM''
                 then (case api_decompose gw (userInput st) of
                         Ok data \<Rightarrow> [''Demande: '' @ userInput st] | _ \<Rightarrow> [])
                 else []
             | _ \<Rightarrow> []) \<and>
   historique (conversationState (handleDecomposition gw st)) =
     historique (conversationState st) @
       (case api_decompose gw (userInput st) of
          Ok data \<Rightarrow> [''Demande: '' @ userInput st] | _ \<Rightarrow> []) \<and>
   historique (conversationState (handleClarification gw st)) =
     historique (conversationState st) @
       (if blank (clarificationResponse st) then []
        else case decomposition st of
               None \<Rightarrow> []
             | Some d \<Rightarrow>
                 (case api_clarify gw (clarifyBody st d) of
                    Ok data \<Rightarrow> [''Clarification: '' @ clarificationResponse st]
                  | _ \<Rightarrow> [])) \<and>
   historique (conversationState (handleAlternatives gw st)) =
     historique (conversationState st) \<and>
   historique (conversationState (generateIntent gw sv si st)) =
     historique (conversationState st) \<and>
   historique (conversationState (handleValidation gw st)) =
     historique (conversationState st) \<and>
   (ev \<noteq> ClickReset \<longrightarrow>
      prefix (historique (conversationState st))
        (historique (conversationState (fire gw ev st))))"
  using historique_handleClassification[of gw st] historique_handleDecomposition[of gw st]
    historique_handleClarification[of gw st] historique_handleAlternatives[of gw st]
    historique_generateIntent[of gw sv si st] historique_handleValidation[of gw st]
    historique_fire[of ev st gw]
  by blast

theorem history_appends_witness:
  "ClickClarify \<noteq> ClickReset \<and>
   historique (conversationState (run sessionTyped initialApp)) =
     [''Demande: camera 5G avec alerte''] \<and>
   fire gwA ClickClarify (run sessionTyped initialApp) = run sessionClarified initialApp \<and>
   historique (conversationState (run sessionClarified initialApp)) =
     [''Demande: camera 5G avec alerte'', ''Clarification: alerte par SMS''] \<and>
   prefix (historique (conversationState (run sessionTyped initialApp)))
     (historique (conversationState (run sessionClarified initialApp)))"
proof -
  have f: "fire gwA ClickClarify (run sessionTyped initialApp) = run sessionClarified initialApp"
    by (simp add: run_def sessionTyped_def sessionClarified_def)
  have h: "historique (conversationState (run sessionTyped initialApp)) =
             [''Demande: camera 5G avec alerte'']"
    by (simp add: handler_defs sample_defs)
  have h': "historique (conversationState (run sessionClarified initialApp)) =
     [''Demande: camera 5G avec alerte'', ''Clarification: alerte par SMS'']"
    by (simp add: handler_defs sample_defs)
  have "prefix (historique (conversationState (run sessionTyped initialApp)))
          (historique (conversationState (fire gwA ClickClarify (run sessionTyped initialApp))))"
    using history_appends[of gwA "run sessionTyped initialApp" None None ClickClarify] by blast
  with f h h' show ?thesis by simp
qed

text \<open>
  Claim C5 as stated fails: the alternatives call is issued and answered, and the history
  after it is the history before it.
\<close>

theorem history_entry_counterexample:
  "sent (run sessionRound1 initialApp) =
     [ClassifyReq ''camera 5G avec alerte'', DecomposeReq ''camera 5G avec alerte''] \<and>
   historique (conversationState (run sessionRound1 initialApp)) =
     [''Demande: camera 5G avec alerte''] \<and>
   sent (fire gwA ClickAlternatives (run sessionRound1 initialApp)) =
     [ClassifyReq ''camera 5G avec alerte'', DecomposeReq ''camera 5G avec alerte'',
      AlternativesReq \<lparr>a_services_refuses = [''Alert''], a_services_valides = [''Camera''],
                        a_historique = [''Demande: camera 5G avec alerte'']\<rparr>] \<and>
   alternatives (fire gwA ClickAlternatives (run sessionRound1 initialApp)) = [''Sirene''] \<and>
   historique (conversationState (fire gwA ClickAlternatives (run sessionRound1 initialApp))) =
     [''Demande: camera 5G avec alerte'']"
  by (simp add: handler_defs sample_defs)

subsection \<open>The clarification request\<close>



end
